theory Spec2Isabelle
  imports Complex_Main
begin

section \<open>The simulation core of \<open>game.py\<close>\<close>

text \<open>
  A shallow embedding of the class \<open>Game\<close> of \<open>game.py\<close>: the registration of game
  objects (\<open>add_game_object\<close>) and one simulation tick (\<open>update\<close>). Python floats
  are idealised as real numbers. Objects live in a store indexed by references, because
  the tick compares objects by identity (\<open>game_obj is not another_obj\<close>) and mutates
  them in place; \<open>game_objects\<close> is the list of references in registration order.
\<close>

subsection \<open>Vectors, poses and geometry primitives\<close>

datatype vector2d = Vector2D (vec_x: real) (vec_y: real)

datatype point2d = Point2D (pt_x: real) (pt_y: real)

datatype orient2d = Orient2D (orient_z: real)

record pose2d =
  position :: vector2d
  orientation :: orient2d

text \<open>
  Modelled from the spec: the module \<open>physics\<close> (class \<open>Vector2D\<close>) is not part of the
  sources. The spec gives vector addition, rotation about the coordinate origin by an
  angle, and the Euclidean distance between two vectors.
\<close>

definition vec_add :: "vector2d \<Rightarrow> vector2d \<Rightarrow> vector2d" where
  "vec_add a b = Vector2D (vec_x a + vec_x b) (vec_y a + vec_y b)"

definition rotate_vec :: "vector2d \<Rightarrow> real \<Rightarrow> vector2d" where
  "rotate_vec v t =
     Vector2D (vec_x v * cos t - vec_y v * sin t) (vec_x v * sin t + vec_y v * cos t)"

definition find_distance :: "vector2d \<Rightarrow> vector2d \<Rightarrow> real" where
  "find_distance a b = sqrt ((vec_x a - vec_x b)\<^sup>2 + (vec_y a - vec_y b)\<^sup>2)"

text \<open>
  Modelled from the spec: the module \<open>collision_engine_2d\<close> (classes \<open>Line2D\<close> and
  \<open>LineSegment2D\<close>) is not part of the sources. A line is given by two points on it; a
  segment is a line bounded by its two end points \<open>point1\<close> and \<open>point2\<close>.
  \<open>find_perpendicular\<close> is the line through a point perpendicular to the segment's line,
  \<open>find_intersection\<close> is the intersection point of the two underlying infinite lines,
  or nothing when they are parallel (the source tests the result against \<open>False\<close>), and
  \<open>segment_find_distance\<close> is the perpendicular distance from a point to the segment's
  underlying line.
\<close>

record line2d =
  point1 :: point2d
  point2 :: point2d

definition LineSegment2D :: "point2d \<Rightarrow> point2d \<Rightarrow> line2d" where
  "LineSegment2D p q = \<lparr>point1 = p, point2 = q\<rparr>"

definition find_perpendicular :: "line2d \<Rightarrow> point2d \<Rightarrow> line2d" where
  "find_perpendicular seg through_point =
     \<lparr>point1 = through_point,
      point2 = Point2D (pt_x through_point - (pt_y (point2 seg) - pt_y (point1 seg)))
                       (pt_y through_point + (pt_x (point2 seg) - pt_x (point1 seg)))\<rparr>"

definition line_det :: "line2d \<Rightarrow> line2d \<Rightarrow> real" where
  "line_det l m =
     (pt_x (point1 l) - pt_x (point2 l)) * (pt_y (point1 m) - pt_y (point2 m))
     - (pt_y (point1 l) - pt_y (point2 l)) * (pt_x (point1 m) - pt_x (point2 m))"

definition find_intersection :: "line2d \<Rightarrow> line2d \<Rightarrow> point2d option" where
  "find_intersection l m =
     (let d = line_det l m;
          a = pt_x (point1 l) * pt_y (point2 l) - pt_y (point1 l) * pt_x (point2 l);
          b = pt_x (point1 m) * pt_y (point2 m) - pt_y (point1 m) * pt_x (point2 m)
      in if d = 0 then None
         else Some (Point2D
           ((a * (pt_x (point1 m) - pt_x (point2 m)) - (pt_x (point1 l) - pt_x (point2 l)) * b) / d)
           ((a * (pt_y (point1 m) - pt_y (point2 m)) - (pt_y (point1 l) - pt_y (point2 l)) * b) / d)))"

definition segment_find_distance :: "line2d \<Rightarrow> point2d \<Rightarrow> real" where
  "segment_find_distance seg p =
     \<bar>(pt_x (point2 seg) - pt_x (point1 seg)) * (pt_y (point1 seg) - pt_y p)
       - (pt_x (point1 seg) - pt_x p) * (pt_y (point2 seg) - pt_y (point1 seg))\<bar>
     / sqrt ((pt_x (point2 seg) - pt_x (point1 seg))\<^sup>2 + (pt_y (point2 seg) - pt_y (point1 seg))\<^sup>2)"

text \<open>
  Python's \<open>math.isclose(a, b, rel_tol=t)\<close> with the default \<open>abs_tol = 0.0\<close>, on
  finite numbers.
\<close>

definition isclose :: "real \<Rightarrow> real \<Rightarrow> real \<Rightarrow> bool" where
  "isclose a b rel_tol = (\<bar>a - b\<bar> \<le> max (rel_tol * max \<bar>a\<bar> \<bar>b\<bar>) 0)"

subsection \<open>Game objects and the program state\<close>

text \<open>
  \<open>obj_type\<close> is the exact class of an object, as \<open>type(obj)\<close> reads it: the three
  classes the tick dispatches on, and any other subclass of \<open>GameObject\<close>.
\<close>

datatype obj_type = Robot | Wall | Zone | OtherGameObject

datatype polygon = Polygon (vertex: "vector2d list")

text \<open>
  The fields of a game object that the tick reads: its pose, its bounding radius and its
  shapes. \<open>motion\<close> stands for whatever else the object's own \<open>update\<close> keeps
  (velocity, acceleration).
\<close>

record 'm game_object =
  pose :: pose2d
  radius :: real
  shape_set :: "polygon list"
  motion :: 'm

type_synonym ref = nat

record 'm game =
  type_of :: "ref \<Rightarrow> obj_type"
  objects :: "ref \<Rightarrow> 'm game_object"
  game_objects :: "ref list"

datatype error = TypeError string | IndexError

subsection \<open>\<open>Game.add_game_object\<close>\<close>

text \<open>
  The argument of \<open>add_game_object\<close> is any Python value: a reference to an instance of
  \<open>GameObject\<close>, or a value of another type, of which the code reads only
  \<open>type(obj).__name__\<close>. The result is the raised exception, if any, and the state
  the call leaves behind.
\<close>

datatype py_value = GameObjectRef ref | NotGameObject string

definition add_game_object :: "py_value \<Rightarrow> 'm game \<Rightarrow> error option \<times> 'm game" where
  "add_game_object obj g =
     (case obj of
        NotGameObject type_name \<Rightarrow>
          (Some (TypeError (''Cannot add '' @ [CHR 0x27] @ type_name @ [CHR 0x27]
                            @ '' type as a game object.'')), g)
      | GameObjectRef r \<Rightarrow> (None, g\<lparr>game_objects := game_objects g @ [r]\<rparr>))"

subsection \<open>\<open>Game.update\<close>: the collision scan\<close>

text \<open>
  The scan of one moving robot carries the flag \<open>collision\<close>. \<open>evaluated\<close> records,
  in order, each collision predicate the scan evaluates: the distance test against
  another robot, the test of a wall's vertex, the test of a wall's edge.
\<close>

datatype probe = RobotProbe ref | VertexProbe ref nat | EdgeProbe ref nat

record scan =
  collision :: bool
  evaluated :: "probe list"

definition scan0 :: scan where
  "scan0 = \<lparr>collision = False, evaluated = []\<rparr>"

definition to_world :: "pose2d \<Rightarrow> vector2d \<Rightarrow> vector2d" where
  "to_world wall_pose v =
     vec_add (rotate_vec v (orient_z (orientation wall_pose))) (position wall_pose)"

text \<open>The loop \<open>for v in vertex\<close>; the state is the scan and the list \<open>coords\<close>.\<close>

fun vertex_loop ::
  "ref \<Rightarrow> pose2d \<Rightarrow> vector2d \<Rightarrow> real \<Rightarrow> vector2d list \<Rightarrow> scan \<times> vector2d list
   \<Rightarrow> scan \<times> vector2d list" where
  "vertex_loop a wall_pose c r [] (s, coords) = (s, coords)"
| "vertex_loop a wall_pose c r (v # vs) (s, coords) =
     (if collision s then (s, coords)
      else
        let new_v = to_world wall_pose v;
            s' = s\<lparr>evaluated := evaluated s @ [VertexProbe a (length coords)]\<rparr>
        in if find_distance new_v c < r then (s'\<lparr>collision := True\<rparr>, coords)
           else vertex_loop a wall_pose c r vs (s', coords @ [new_v]))"

text \<open>The loop \<open>for i in range(len(coords))\<close> that builds \<open>edges\<close>.\<close>

definition new_line :: "vector2d list \<Rightarrow> nat \<Rightarrow> line2d" where
  "new_line coords i =
     LineSegment2D
       (Point2D (vec_x (coords ! i)) (vec_y (coords ! i)))
       (Point2D (vec_x (coords ! ((i + 1) mod length coords)))
                (vec_y (coords ! ((i + 1) mod length coords))))"

fun edges_loop :: "bool \<Rightarrow> vector2d list \<Rightarrow> nat list \<Rightarrow> line2d list \<Rightarrow> line2d list" where
  "edges_loop coll coords [] edges = edges"
| "edges_loop coll coords (i # rest) edges =
     (if coll then edges else edges_loop coll coords rest (edges @ [new_line coords i]))"

text \<open>
  The body of the loop \<open>for edge in edges\<close>: does this edge report a collision? The
  method \<open>find_intersection\<close> belongs to the module \<open>collision_engine_2d\<close>, which is
  not part of the sources, and is the parameter \<open>intersect\<close>: it answers with a point,
  or with nothing where the source reads \<open>False\<close>.
\<close>

definition edge_test_with ::
  "(line2d \<Rightarrow> line2d \<Rightarrow> point2d option) \<Rightarrow> vector2d \<Rightarrow> real \<Rightarrow> line2d \<Rightarrow> bool" where
  "edge_test_with intersect c r edge =
     (let perpendicular_line = find_perpendicular edge (Point2D (vec_x c) (vec_y c))
      in case intersect perpendicular_line edge of
           None \<Rightarrow> False
         | Some intersetion \<Rightarrow>
             (let xmax = max (pt_x (point1 edge)) (pt_x (point2 edge));
                  xmin = min (pt_x (point1 edge)) (pt_x (point2 edge));
                  ymax = max (pt_y (point1 edge)) (pt_y (point2 edge));
                  ymin = min (pt_y (point1 edge)) (pt_y (point2 edge))
              in if (pt_x intersetion \<le> xmax \<or> isclose (pt_x intersetion) xmax (1 / 10 ^ 4))
                  \<and> (pt_x intersetion \<ge> xmin \<or> isclose (pt_x intersetion) xmin (1 / 10 ^ 4))
                  \<and> (pt_y intersetion \<le> ymax \<or> isclose (pt_y intersetion) ymax (1 / 10 ^ 4))
                  \<and> (pt_y intersetion \<ge> ymin \<or> isclose (pt_y intersetion) ymin (1 / 10 ^ 4))
                 then segment_find_distance edge (Point2D (vec_x c) (vec_y c)) < r
                 else False))"

fun edge_loop_with ::
  "(line2d \<Rightarrow> line2d \<Rightarrow> point2d option) \<Rightarrow> ref \<Rightarrow> vector2d \<Rightarrow> real \<Rightarrow> nat \<Rightarrow> line2d list
   \<Rightarrow> scan \<Rightarrow> scan" where
  "edge_loop_with intersect a c r k [] s = s"
| "edge_loop_with intersect a c r k (edge # rest) s =
     (if collision s then s
      else
        let s' = s\<lparr>evaluated := evaluated s @ [EdgeProbe a k]\<rparr>
        in if edge_test_with intersect c r edge then s'\<lparr>collision := True\<rparr>
           else edge_loop_with intersect a c r (Suc k) rest s')"

text \<open>The edge test and the edge loop with the intersection of lines as the spec gives it.\<close>

definition edge_test :: "vector2d \<Rightarrow> real \<Rightarrow> line2d \<Rightarrow> bool" where
  "edge_test = edge_test_with find_intersection"

definition edge_loop :: "ref \<Rightarrow> vector2d \<Rightarrow> real \<Rightarrow> nat \<Rightarrow> line2d list \<Rightarrow> scan \<Rightarrow> scan" where
  "edge_loop = edge_loop_with find_intersection"

text \<open>The branch \<open>if type(another_obj) is Wall\<close>, once \<open>shape_set[0].vertex\<close> is read.\<close>

definition wall_scan :: "ref \<Rightarrow> pose2d \<Rightarrow> vector2d \<Rightarrow> real \<Rightarrow> vector2d list \<Rightarrow> scan \<Rightarrow> scan" where
  "wall_scan a wall_pose c r verts s =
     (let (s1, coords) = vertex_loop a wall_pose c r verts (s, []);
          edges = edges_loop (collision s1) coords [0..<length coords] []
      in edge_loop a c r 0 edges s1)"

text \<open>
  The loop \<open>for another_obj in self.game_objects\<close> for the moving object \<open>self\<close>. A
  positive distance test against another robot leaves the loop; the wall branch does not.
  \<open>shape_set[0]\<close> raises \<open>IndexError\<close> on an empty list.
\<close>

fun objects_loop :: "'m game \<Rightarrow> ref \<Rightarrow> ref list \<Rightarrow> scan \<Rightarrow> error + scan" where
  "objects_loop g self [] s = Inr s"
| "objects_loop g self (a # rest) s =
     (let tested = (type_of g a = Robot \<and> self \<noteq> a);
          s' = (if tested then s\<lparr>evaluated := evaluated s @ [RobotProbe a]\<rparr> else s)
      in if tested
            \<and> find_distance (position (pose (objects g self))) (position (pose (objects g a)))
                < radius (objects g self) + radius (objects g a)
         then Inr (s'\<lparr>collision := True\<rparr>)
         else if type_of g a = Wall then
           (case shape_set (objects g a) of
              [] \<Rightarrow> Inl IndexError
            | shape # _ \<Rightarrow>
                objects_loop g self rest
                  (wall_scan a (pose (objects g a)) (position (pose (objects g self)))
                     (radius (objects g self)) (vertex shape) s'))
         else objects_loop g self rest s')"

subsection \<open>\<open>Game.update\<close>: one tick\<close>

text \<open>
  Modelled from the spec: \<open>GameObject.moveTo\<close> (module \<open>game_objects\<close>) is not part of
  the sources; the spec has it restore the given pose as the object's pose.
\<close>

definition moveTo :: "'m game_object \<Rightarrow> pose2d \<Rightarrow> 'm game_object" where
  "moveTo obj p = obj\<lparr>pose := p\<rparr>"

text \<open>
  The object's own \<open>update\<close> is the parameter \<open>upd\<close>: it is chosen by the object's
  class and changes the object's own state only. \<open>advance\<close> is the state after
  \<open>game_obj.update(t_interval)\<close>.
\<close>

definition advance ::
  "(obj_type \<Rightarrow> real \<Rightarrow> 'm game_object \<Rightarrow> 'm game_object) \<Rightarrow> real \<Rightarrow> ref \<Rightarrow> 'm game \<Rightarrow> 'm game" where
  "advance upd t_interval r g =
     g\<lparr>objects := (objects g)(r := upd (type_of g r) t_interval (objects g r))\<rparr>"

text \<open>
  The body of the loop \<open>for game_obj in self.game_objects\<close>. An exception of the scan
  leaves the state as the motion update made it.
\<close>

definition update_object ::
  "(obj_type \<Rightarrow> real \<Rightarrow> 'm game_object \<Rightarrow> 'm game_object) \<Rightarrow> real \<Rightarrow> ref \<Rightarrow> 'm game
   \<Rightarrow> error option \<times> 'm game" where
  "update_object upd t_interval r g =
     (let old_pose = pose (objects g r);
          g1 = advance upd t_interval r g
      in if type_of g1 r = Robot then
           (case objects_loop g1 r (game_objects g1) scan0 of
              Inl e \<Rightarrow> (Some e, g1)
            | Inr s \<Rightarrow>
                if collision s
                then (None, g1\<lparr>objects := (objects g1)(r := moveTo (objects g1 r) old_pose)\<rparr>)
                else (None, g1))
         else (None, g1))"

fun update_loop ::
  "(obj_type \<Rightarrow> real \<Rightarrow> 'm game_object \<Rightarrow> 'm game_object) \<Rightarrow> real \<Rightarrow> ref list \<Rightarrow> 'm game
   \<Rightarrow> error option \<times> 'm game" where
  "update_loop upd t_interval [] g = (None, g)"
| "update_loop upd t_interval (r # rest) g =
     (case update_object upd t_interval r g of
        (Some e, g') \<Rightarrow> (Some e, g')
      | (None, g') \<Rightarrow> update_loop upd t_interval rest g')"

definition update ::
  "(obj_type \<Rightarrow> real \<Rightarrow> 'm game_object \<Rightarrow> 'm game_object) \<Rightarrow> real \<Rightarrow> 'm game
   \<Rightarrow> error option \<times> 'm game" where
  "update upd t_interval g = update_loop upd t_interval (game_objects g) g"

subsection \<open>The bounding-box test in the spec's words\<close>

text \<open>
  The spec's acceptance test for an intersection point, to be compared with the test in
  the loop body above: each coordinate must satisfy \<open>min \<le> value \<le> max\<close> over the
  segment's end points, where a value outside a bound but within relative tolerance
  \<open>1e-4\<close> of that bound still counts as inside.
\<close>

definition within_tolerance :: "real \<Rightarrow> real \<Rightarrow> bool" where
  "within_tolerance v bound = (\<bar>v - bound\<bar> \<le> max \<bar>v\<bar> \<bar>bound\<bar> / 10 ^ 4)"

definition inside_box :: "point2d \<Rightarrow> line2d \<Rightarrow> bool" where
  "inside_box p seg =
     ((min (pt_x (point1 seg)) (pt_x (point2 seg)) \<le> pt_x p
         \<or> within_tolerance (pt_x p) (min (pt_x (point1 seg)) (pt_x (point2 seg))))
      \<and> (pt_x p \<le> max (pt_x (point1 seg)) (pt_x (point2 seg))
         \<or> within_tolerance (pt_x p) (max (pt_x (point1 seg)) (pt_x (point2 seg))))
      \<and> (min (pt_y (point1 seg)) (pt_y (point2 seg)) \<le> pt_y p
         \<or> within_tolerance (pt_y p) (min (pt_y (point1 seg)) (pt_y (point2 seg))))
      \<and> (pt_y p \<le> max (pt_y (point1 seg)) (pt_y (point2 seg))
         \<or> within_tolerance (pt_y p) (max (pt_y (point1 seg)) (pt_y (point2 seg)))))"

subsection \<open>Example configurations\<close>

text \<open>
  Small arenas on which the theorems below are instantiated. \<open>drift\<close> is a motion
  update: a robot moves along the x axis at unit speed, every other object stands still.
\<close>

definition object_at :: "real \<Rightarrow> real \<Rightarrow> real \<Rightarrow> vector2d list \<Rightarrow> unit game_object" where
  "object_at px py rad verts =
     \<lparr>pose = \<lparr>position = Vector2D px py, orientation = Orient2D 0\<rparr>,
      radius = rad, shape_set = [Polygon verts], motion = ()\<rparr>"

definition drift :: "obj_type \<Rightarrow> real \<Rightarrow> unit game_object \<Rightarrow> unit game_object" where
  "drift ty dt ob =
     (if ty = Robot
      then ob\<lparr>pose := (pose ob)\<lparr>position :=
             Vector2D (vec_x (position (pose ob)) + dt) (vec_y (position (pose ob)))\<rparr>\<rparr>
      else ob)"

text \<open>Robot 0 at the origin with radius 10 and robot 1 at \<open>(d, 0)\<close> with radius 6.\<close>

definition two_robots :: "real \<Rightarrow> unit game" where
  "two_robots d =
     \<lparr>type_of = (\<lambda>_. Robot),
      objects = (\<lambda>r. if r = 0 then object_at 0 0 10 [] else object_at d 0 6 []),
      game_objects = [0, 1]\<rparr>"

text \<open>
  Robot 0 of radius 1 at \<open>(px, py)\<close>; wall 1, a rectangle of 20 by 2 centred at
  \<open>(10, 1)\<close>, so that its corners are \<open>(0,0)\<close>, \<open>(20,0)\<close>, \<open>(20,2)\<close>, \<open>(0,2)\<close>;
  robot 2 of radius 1 far away at \<open>(100, 0)\<close>.
\<close>

definition wall_arena :: "real \<Rightarrow> real \<Rightarrow> unit game" where
  "wall_arena px py =
     \<lparr>type_of = (\<lambda>r. if r = 1 then Wall else Robot),
      objects = (\<lambda>r. if r = 0 then object_at px py 1 []
                      else if r = 1 then object_at 10 1 0
                        [Vector2D (-10) (-1), Vector2D 10 (-1), Vector2D 10 1, Vector2D (-10) 1]
                      else object_at 100 0 1 []),
      game_objects = [0, 1, 2]\<rparr>"

text \<open>Robot 0 of radius 5 in the middle of zone 1, whose radius is 50.\<close>

definition zone_arena :: "unit game" where
  "zone_arena =
     \<lparr>type_of = (\<lambda>r. if r = 0 then Robot else Zone),
      objects = (\<lambda>r. if r = 0 then object_at 3 4 5 []
                      else object_at 3 4 50
                        [Vector2D (-50) (-50), Vector2D 50 (-50), Vector2D 50 50, Vector2D (-50) 50]),
      game_objects = [1, 0]\<rparr>"

text \<open>
  Robot 0 of radius 1 at \<open>(px, py)\<close>; wall 1, a rectangle of 4 by 2 at \<open>(5, 0)\<close>
  turned by a quarter turn, so that its corners are \<open>(6,-2)\<close>, \<open>(6,2)\<close>, \<open>(4,2)\<close>,
  \<open>(4,-2)\<close>.
\<close>

definition turned_arena :: "real \<Rightarrow> real \<Rightarrow> unit game" where
  "turned_arena px py =
     \<lparr>type_of = (\<lambda>r. if r = 1 then Wall else Robot),
      objects = (\<lambda>r. if r = 1
                      then \<lparr>pose = \<lparr>position = Vector2D 5 0, orientation = Orient2D (pi / 2)\<rparr>,
                            radius = 0,
                            shape_set = [Polygon [Vector2D (-2) (-1), Vector2D 2 (-1),
                                                  Vector2D 2 1, Vector2D (-2) 1]],
                            motion = ()\<rparr>
                      else object_at px py 1 []),
      game_objects = [0, 1]\<rparr>"

text \<open>
  As \<open>wall_arena\<close>, but object 2 is a wall whose \<open>shape_set\<close> is empty.
\<close>

definition open_wall_arena :: "real \<Rightarrow> real \<Rightarrow> unit game" where
  "open_wall_arena px py =
     \<lparr>type_of = (\<lambda>r. if r = 0 then Robot else Wall),
      objects = (\<lambda>r. if r = 0 then object_at px py 1 []
                      else if r = 1 then object_at 10 1 0
                        [Vector2D (-10) (-1), Vector2D 10 (-1), Vector2D 10 1, Vector2D (-10) 1]
                      else (object_at 100 0 0 [])\<lparr>shape_set := []\<rparr>),
      game_objects = [0, 1, 2]\<rparr>"


section \<open>The geometry primitives\<close>

text \<open>
  The modelled line operations do what the spec says of them: the perpendicular passes
  through the given point at a right angle to the segment, an intersection point lies on
  both lines, and the perpendicular misses the segment's line only when the segment has
  no length.
\<close>

lemma perpendicular_through_point:
  "point1 (find_perpendicular seg p) = p
   \<and> (pt_x (point2 (find_perpendicular seg p)) - pt_x (point1 (find_perpendicular seg p)))
       * (pt_x (point2 seg) - pt_x (point1 seg))
     + (pt_y (point2 (find_perpendicular seg p)) - pt_y (point1 (find_perpendicular seg p)))
       * (pt_y (point2 seg) - pt_y (point1 seg)) = 0"
  by (simp add: find_perpendicular_def algebra_simps)

lemma intersection_on_both_lines:
  assumes "find_intersection l m = Some p"
  shows "(pt_x (point2 l) - pt_x (point1 l)) * (pt_y p - pt_y (point1 l))
           = (pt_y (point2 l) - pt_y (point1 l)) * (pt_x p - pt_x (point1 l))
       \<and> (pt_x (point2 m) - pt_x (point1 m)) * (pt_y p - pt_y (point1 m))
           = (pt_y (point2 m) - pt_y (point1 m)) * (pt_x p - pt_x (point1 m))"
proof -
  have d: "line_det l m \<noteq> 0" using assms by (auto simp: find_intersection_def Let_def split: if_splits)
  then have d': "(pt_x (point1 l) - pt_x (point2 l)) * (pt_y (point1 m) - pt_y (point2 m))
     - (pt_y (point1 l) - pt_y (point2 l)) * (pt_x (point1 m) - pt_x (point2 m)) \<noteq> 0"
    by (simp add: line_det_def)
  have p: "p = Point2D
           (((pt_x (point1 l) * pt_y (point2 l) - pt_y (point1 l) * pt_x (point2 l)) * (pt_x (point1 m) - pt_x (point2 m)) - (pt_x (point1 l) - pt_x (point2 l)) * (pt_x (point1 m) * pt_y (point2 m) - pt_y (point1 m) * pt_x (point2 m))) / line_det l m)
           (((pt_x (point1 l) * pt_y (point2 l) - pt_y (point1 l) * pt_x (point2 l)) * (pt_y (point1 m) - pt_y (point2 m)) - (pt_y (point1 l) - pt_y (point2 l)) * (pt_x (point1 m) * pt_y (point2 m) - pt_y (point1 m) * pt_x (point2 m))) / line_det l m)"
    using assms d by (simp add: find_intersection_def Let_def)
  show ?thesis
    using d' unfolding p line_det_def
    by (auto simp: field_simps)
qed



section \<open>The loops of the collision scan\<close>

text \<open>
  Each inner loop stops as soon as the flag is set, and otherwise sets it exactly when
  one of its tests is positive.
\<close>

lemma edge_loop_simps [simp]:
  "edge_loop a c r k [] s = s"
  "edge_loop a c r k (edge # rest) s =
     (if collision s then s
      else
        let s' = s\<lparr>evaluated := evaluated s @ [EdgeProbe a k]\<rparr>
        in if edge_test c r edge then s'\<lparr>collision := True\<rparr>
           else edge_loop a c r (Suc k) rest s')"
  unfolding edge_loop_def edge_test_def by simp_all

lemma vertex_loop_stop: "collision s \<Longrightarrow> vertex_loop a wp c r vs (s, coords) = (s, coords)"
  by (cases vs) simp_all

lemma vertex_loop_collision:
  "\<not> collision s \<Longrightarrow>
   collision (fst (vertex_loop a wp c r vs (s, coords)))
     = (\<exists>v\<in>set vs. find_distance (to_world wp v) c < r)"
  by (induction vs arbitrary: s coords) (auto simp: Let_def)

lemma vertex_loop_coords:
  "\<not> collision s \<Longrightarrow> \<forall>v\<in>set vs. \<not> find_distance (to_world wp v) c < r \<Longrightarrow>
   snd (vertex_loop a wp c r vs (s, coords)) = coords @ map (to_world wp) vs"
  by (induction vs arbitrary: s coords) (auto simp: Let_def)

lemma edges_loop_stop: "edges_loop True coords ks edges = edges"
  by (cases ks) simp_all

lemma edges_loop_all: "edges_loop False coords ks edges = edges @ map (new_line coords) ks"
  by (induction ks arbitrary: edges) simp_all

lemma edge_loop_stop: "collision s \<Longrightarrow> edge_loop a c r k es s = s"
  by (cases es) simp_all

lemma edge_loop_collision:
  "\<not> collision s \<Longrightarrow> collision (edge_loop a c r k es s) = (\<exists>e\<in>set es. edge_test c r e)"
  by (induction es arbitrary: s k) (auto simp: Let_def)

lemma wall_scan_stop: "collision s \<Longrightarrow> wall_scan a wp c r verts s = s"
  by (simp add: wall_scan_def vertex_loop_stop edges_loop_stop)

lemma wall_scan_collision:
  assumes "\<not> collision s"
  shows "collision (wall_scan a wp c r verts s)
     = ((\<exists>v\<in>set verts. find_distance (to_world wp v) c < r)
        \<or> (\<exists>i<length verts. edge_test c r (new_line (map (to_world wp) verts) i)))"
proof (cases "\<exists>v\<in>set verts. find_distance (to_world wp v) c < r")
  case True
  obtain s1 coords where v: "vertex_loop a wp c r verts (s, []) = (s1, coords)"
    by (cases "vertex_loop a wp c r verts (s, [])")
  have "collision s1" using vertex_loop_collision[OF assms, of a wp c r verts "[]"] v True by simp
  then show ?thesis using True v by (simp add: wall_scan_def edge_loop_stop)
next
  case False
  obtain s1 coords where v: "vertex_loop a wp c r verts (s, []) = (s1, coords)"
    by (cases "vertex_loop a wp c r verts (s, [])")
  have c1: "\<not> collision s1" using vertex_loop_collision[OF assms, of a wp c r verts "[]"] v False by simp
  have co: "coords = map (to_world wp) verts"
    using vertex_loop_coords[OF assms, of verts wp c r a "[]"] v False by simp
  show ?thesis using False v c1 co
    by (auto simp: wall_scan_def edges_loop_all edge_loop_collision)
qed

lemma isclose_tolerance: "isclose a b (1 / 10 ^ 4) = within_tolerance a b"
proof -
  have "0 \<le> (1 / 10 ^ 4) * max \<bar>a\<bar> \<bar>b\<bar>" by simp
  then have "max ((1 / 10 ^ 4) * max \<bar>a\<bar> \<bar>b\<bar>) 0 = max \<bar>a\<bar> \<bar>b\<bar> / 10 ^ 4" by simp
  then show ?thesis unfolding isclose_def within_tolerance_def by simp
qed

lemma edge_test_iff:
  "edge_test c r edge =
     (\<exists>p. find_intersection (find_perpendicular edge (Point2D (vec_x c) (vec_y c))) edge = Some p
          \<and> inside_box p edge
          \<and> segment_find_distance edge (Point2D (vec_x c) (vec_y c)) < r)"
  unfolding edge_test_def edge_test_with_def Let_def inside_box_def isclose_tolerance
  by (cases "find_intersection (find_perpendicular edge (Point2D (vec_x c) (vec_y c))) edge") auto

lemma find_distance_less_iff:
  "0 < r \<Longrightarrow> find_distance a b < r \<longleftrightarrow> (vec_x a - vec_x b)\<^sup>2 + (vec_y a - vec_y b)\<^sup>2 < r\<^sup>2"
  unfolding find_distance_def
  using real_sqrt_less_iff[of "(vec_x a - vec_x b)\<^sup>2 + (vec_y a - vec_y b)\<^sup>2" "r\<^sup>2"]
  by simp

lemma find_distance_self: "find_distance a a = 0"
  by (simp add: find_distance_def)

section \<open>The scan over the registered objects\<close>

lemma objects_loop_mono:
  "objects_loop g self rs s = Inr s' \<Longrightarrow> collision s \<Longrightarrow> collision s'"
  by (induction rs arbitrary: s) (auto simp: Let_def wall_scan_stop split: if_splits list.splits)


lemma objects_loop_total:
  "\<forall>w\<in>set rs. type_of g w = Wall \<longrightarrow> shape_set (objects g w) \<noteq> [] \<Longrightarrow>
   \<exists>s'. objects_loop g r rs s = Inr s'"
  by (induction rs arbitrary: s) (auto simp: Let_def split: list.splits)

lemma objects_loop_skip_zone:
  "type_of g a = Zone \<Longrightarrow> objects_loop g r (a # rest) s = objects_loop g r rest s"
  by simp

lemma objects_loop_filter_zone:
  "objects_loop g r (filter (\<lambda>q. type_of g q \<noteq> Zone) rs) s = objects_loop g r rs s"
  by (induction rs arbitrary: s) (auto simp: Let_def split: list.splits)

lemma objects_loop_only_zones:
  "\<forall>q\<in>set rs. q = r \<and> type_of g r = Robot \<or> type_of g q = Zone \<Longrightarrow> objects_loop g r rs s = Inr s"
  by (induction rs arbitrary: s) (auto simp: Let_def)

lemma objects_loop_filter_self:
  "type_of g r = Robot \<Longrightarrow>
   objects_loop g r (filter (\<lambda>q. q \<noteq> r) rs) s = objects_loop g r rs s"
  by (induction rs arbitrary: s) (auto simp: Let_def split: list.splits)


lemma objects_loop_vertex_hit:
  assumes "objects_loop g r rs s = Inr s'"
    and "a \<in> set rs" and "type_of g a = Wall" and "shape_set (objects g a) = shape # others"
    and "v \<in> set (vertex shape)"
    and "find_distance (to_world (pose (objects g a)) v) (position (pose (objects g r)))
           < radius (objects g r)"
  shows "collision s'"
  using assms(1,2)
proof (induction rs arbitrary: s)
  case Nil
  then show ?case by simp
next
  case (Cons b rs)
  show ?case
  proof (cases "b = a")
    case True
    let ?w = "wall_scan a (pose (objects g a)) (position (pose (objects g r)))
                (radius (objects g r)) (vertex shape) s"
    have run: "objects_loop g r rs ?w = Inr s'"
      using Cons.prems(1) True assms(3,4) by simp
    have "collision ?w"
    proof (cases "collision s")
      case True
      then show ?thesis by (simp add: wall_scan_stop)
    next
      case False
      then show ?thesis using wall_scan_collision[OF False] assms(5,6) by blast
    qed
    then show ?thesis using objects_loop_mono[OF run] by simp
  next
    case False
    then have mem: "a \<in> set rs" using Cons.prems(2) by simp
    show ?thesis
    proof (cases "type_of g b = Robot \<and> r \<noteq> b
        \<and> find_distance (position (pose (objects g r))) (position (pose (objects g b)))
            < radius (objects g r) + radius (objects g b)")
      case True
      then show ?thesis using Cons.prems(1) by auto
    next
      case nohit: False
      then obtain s1 where "objects_loop g r rs s1 = Inr s'"
        using Cons.prems(1) by (auto simp: Let_def split: if_splits list.splits)
      then show ?thesis using Cons.IH mem by blast
    qed
  qed
qed

section \<open>The tick\<close>

lemma advance_simps:
  "type_of (advance upd dt r g) = type_of g"
  "game_objects (advance upd dt r g) = game_objects g"
  "objects (advance upd dt r g) q = (if q = r then upd (type_of g r) dt (objects g r) else objects g q)"
  by (simp_all add: advance_def)

lemma update_object_frame:
  "type_of (snd (update_object upd dt r g)) = type_of g"
  "game_objects (snd (update_object upd dt r g)) = game_objects g"
  by (simp_all add: update_object_def Let_def advance_simps split: sum.splits)

lemma update_object_other:
  "q \<noteq> r \<Longrightarrow> objects (snd (update_object upd dt r g)) q = objects g q"
  by (simp add: update_object_def Let_def advance_simps split: sum.splits)

lemma update_object_not_robot:
  "type_of g r \<noteq> Robot \<Longrightarrow> update_object upd dt r g = (None, advance upd dt r g)"
  by (simp add: update_object_def Let_def advance_simps)

lemma update_loop_frame:
  "type_of (snd (update_loop upd dt rs g)) = type_of g
   \<and> game_objects (snd (update_loop upd dt rs g)) = game_objects g"
proof (induction rs arbitrary: g)
  case Nil
  then show ?case by simp
next
  case (Cons r rs)
  obtain e g' where u: "update_object upd dt r g = (e, g')" by (cases "update_object upd dt r g")
  have "type_of g' = type_of g" "game_objects g' = game_objects g"
    using update_object_frame[of upd dt r g] u by simp_all
  then show ?case using Cons.IH[of g'] u by (cases e) simp_all
qed

lemma update_loop_other:
  "q \<notin> set rs \<Longrightarrow> objects (snd (update_loop upd dt rs g)) q = objects g q"
proof (induction rs arbitrary: g)
  case Nil
  then show ?case by simp
next
  case (Cons r rs)
  obtain e g' where u: "update_object upd dt r g = (e, g')" by (cases "update_object upd dt r g")
  have "objects g' q = objects g q"
    using update_object_other[of q r upd dt g] u Cons.prems by simp
  then show ?case using Cons.IH[of g'] Cons.prems u by (cases e) simp_all
qed

lemma update_loop_append:
  "update_loop upd dt pre g = (None, g1) \<Longrightarrow>
   update_loop upd dt (pre @ rs) g = update_loop upd dt rs g1"
proof (induction pre arbitrary: g)
  case Nil
  then show ?case by simp
next
  case (Cons r pre)
  obtain e g' where u: "update_object upd dt r g = (e, g')" by (cases "update_object upd dt r g")
  show ?case using Cons u by (cases e) simp_all
qed

lemma update_object_rollback:
  assumes "type_of g r = Robot"
    and "objects_loop (advance upd dt r g) r (game_objects g) scan0 = Inr s"
    and "collision s"
  shows "update_object upd dt r g =
     (None, (advance upd dt r g)\<lparr>objects := (objects (advance upd dt r g))
        (r := moveTo (objects (advance upd dt r g) r) (pose (objects g r)))\<rparr>)"
  using assms by (simp add: update_object_def Let_def advance_simps)

lemma update_object_idle:
  assumes "\<forall>k ob. upd k 0 ob = ob"
  shows "snd (update_object upd 0 r g) = g"
proof -
  have a: "advance upd 0 r g = g" using assms by (simp add: advance_def)
  show ?thesis
    by (simp add: update_object_def Let_def a moveTo_def split: sum.splits)
qed

lemma vertex_loop_robot_probe:
  "RobotProbe b \<in> set (evaluated (fst (vertex_loop a wp c r vs (s, coords))))
     = (RobotProbe b \<in> set (evaluated s))"
  by (induction vs arbitrary: s coords) (auto simp: Let_def)

lemma edge_loop_robot_probe:
  "RobotProbe b \<in> set (evaluated (edge_loop a c r k es s)) = (RobotProbe b \<in> set (evaluated s))"
  by (induction es arbitrary: s k) (auto simp: Let_def)

lemma wall_scan_robot_probe:
  "RobotProbe b \<in> set (evaluated (wall_scan a wp c r verts s)) = (RobotProbe b \<in> set (evaluated s))"
proof -
  obtain s1 coords where v: "vertex_loop a wp c r verts (s, []) = (s1, coords)"
    by (cases "vertex_loop a wp c r verts (s, [])")
  have "RobotProbe b \<in> set (evaluated s1) = (RobotProbe b \<in> set (evaluated s))"
    using vertex_loop_robot_probe[of b a wp c r verts s "[]"] v by simp
  then show ?thesis using v by (simp add: wall_scan_def edge_loop_robot_probe)
qed

lemma objects_loop_no_self_probe:
  "objects_loop g r rs s = Inr s' \<Longrightarrow> RobotProbe r \<in> set (evaluated s') \<Longrightarrow>
   RobotProbe r \<in> set (evaluated s)"
proof (induction rs arbitrary: s)
  case Nil
  then show ?case by simp
next
  case (Cons a rs)
  show ?case
  proof (cases "type_of g a = Robot \<and> r \<noteq> a
        \<and> find_distance (position (pose (objects g r))) (position (pose (objects g a)))
            < radius (objects g r) + radius (objects g a)")
    case True
    then show ?thesis using Cons.prems by auto
  next
    case False
    have "\<exists>s1. objects_loop g r rs s1 = Inr s'
            \<and> (RobotProbe r \<in> set (evaluated s1) \<longrightarrow> RobotProbe r \<in> set (evaluated s))"
    proof (cases "type_of g a = Wall")
      case True
      then obtain shape others where sh: "shape_set (objects g a) = shape # others"
        using Cons.prems(1) False by (cases "shape_set (objects g a)") (simp_all add: Let_def)
      let ?w = "wall_scan a (pose (objects g a)) (position (pose (objects g r)))
                  (radius (objects g r)) (vertex shape) s"
      have "objects_loop g r rs ?w = Inr s'"
        using Cons.prems(1) True sh by simp
      moreover have "RobotProbe r \<in> set (evaluated ?w) \<longrightarrow> RobotProbe r \<in> set (evaluated s)"
        by (simp add: wall_scan_robot_probe)
      ultimately show ?thesis by blast
    next
      case nowall: False
      show ?thesis
      proof (cases "type_of g a = Robot \<and> r \<noteq> a")
        case True
        let ?s1 = "s\<lparr>evaluated := evaluated s @ [RobotProbe a]\<rparr>"
        have "objects_loop g r rs ?s1 = Inr s'"
          using Cons.prems(1) False True nowall by simp
        moreover have "RobotProbe r \<in> set (evaluated ?s1) \<longrightarrow> RobotProbe r \<in> set (evaluated s)"
          using True by simp
        ultimately show ?thesis by blast
      next
        case untested: False
        then have "objects_loop g r rs s = Inr s'"
          using Cons.prems(1) nowall by (auto simp: Let_def split: if_splits)
        then show ?thesis by blast
      qed
    qed
    then show ?thesis using Cons.IH Cons.prems(2) by blast
  qed
qed

lemma update_loop_idle:
  assumes "\<forall>k ob. upd k 0 ob = ob"
  shows "snd (update_loop upd 0 rs g) = g"
proof (induction rs)
  case Nil
  then show ?case by simp
next
  case (Cons r rs)
  obtain e g' where u: "update_object upd 0 r g = (e, g')" by (cases "update_object upd 0 r g")
  have "g' = g" using update_object_idle[of upd r g] assms u by simp
  then show ?case using Cons u by (cases e) simp_all
qed

lemma edge_loop_collision_any:
  "collision (edge_loop a c r k es s) = (collision s \<or> (\<exists>e\<in>set es. edge_test c r e))"
  by (cases "collision s") (simp_all add: edge_loop_stop edge_loop_collision)

lemma objects_loop_single_wall:
  assumes "type_of g a = Wall" and "shape_set (objects g a) = shape # others"
  shows "objects_loop g r [a] s =
     Inr (wall_scan a (pose (objects g a)) (position (pose (objects g r)))
            (radius (objects g r)) (vertex shape) s)"
  using assms by simp




section \<open>Registration\<close>

text \<open>
  C9. Registering a value fails if and only if it is not a game object. The failure is a
  \<open>TypeError\<close> whose message names the type of the value and it leaves the object
  collection as it was; otherwise the object is appended at the end of the collection.
\<close>

theorem add_game_object_spec:
  "(fst (add_game_object obj g) \<noteq> None \<longleftrightarrow> (\<exists>n. obj = NotGameObject n))
   \<and> (\<forall>n. obj = NotGameObject n \<longrightarrow>
        add_game_object obj g =
          (Some (TypeError (''Cannot add '' @ [CHR 0x27] @ n @ [CHR 0x27]
                            @ '' type as a game object.'')), g))
   \<and> (\<forall>r. obj = GameObjectRef r \<longrightarrow>
        fst (add_game_object obj g) = None
        \<and> game_objects (snd (add_game_object obj g)) = game_objects g @ [r]
        \<and> type_of (snd (add_game_object obj g)) = type_of g
        \<and> objects (snd (add_game_object obj g)) = objects g)"
  by (cases obj) (simp_all add: add_game_object_def)

theorem add_game_object_spec_witness:
  "add_game_object (NotGameObject ''int'') zone_arena
     = (Some (TypeError ''Cannot add 'int' type as a game object.''), zone_arena)
   \<and> fst (add_game_object (GameObjectRef 7) zone_arena) = None
   \<and> game_objects (snd (add_game_object (GameObjectRef 7) zone_arena)) = [1, 0, 7]"
  using add_game_object_spec[of "NotGameObject ''int''" zone_arena]
        add_game_object_spec[of "GameObjectRef 7" zone_arena]
  by (simp add: zone_arena_def)

section \<open>Collision predicates\<close>

text \<open>
  C1. For two distinct robots the scan of one against the other reports a collision if
  and only if the Euclidean distance of their positions is strictly less than the sum of
  their radii; at tangency, where the distance equals that sum, no collision is reported.
\<close>

theorem circle_circle_predicate:
  assumes "type_of g b = Robot" and "a \<noteq> b"
  shows "\<exists>s. objects_loop g a [b] scan0 = Inr s
     \<and> (collision s \<longleftrightarrow>
          sqrt ((vec_x (position (pose (objects g a))) - vec_x (position (pose (objects g b))))\<^sup>2
              + (vec_y (position (pose (objects g a))) - vec_y (position (pose (objects g b))))\<^sup>2)
          < radius (objects g a) + radius (objects g b))
     \<and> (sqrt ((vec_x (position (pose (objects g a))) - vec_x (position (pose (objects g b))))\<^sup>2
              + (vec_y (position (pose (objects g a))) - vec_y (position (pose (objects g b))))\<^sup>2)
          = radius (objects g a) + radius (objects g b) \<longrightarrow> \<not> collision s)"
  using assms by (auto simp: find_distance_def scan0_def Let_def)

theorem circle_circle_predicate_witness:
  "(\<exists>s. objects_loop (two_robots 15) 0 [1] scan0 = Inr s \<and> collision s)
   \<and> (\<exists>s. objects_loop (two_robots 16) 0 [1] scan0 = Inr s \<and> \<not> collision s)"
  using circle_circle_predicate[of "two_robots 15" 1 0]
        circle_circle_predicate[of "two_robots 16" 1 0]
  by (simp add: two_robots_def object_at_def)

section \<open>Resolution by rollback\<close>

text \<open>
  C2. When the scan of a robot detects a collision, the robot's pose after its step, and
  after the whole tick if the robot is not processed again, is the pose it had immediately
  before its motion update. The step changes no other object; in particular the pose of
  a wall or a zone is not modified.
\<close>

theorem rollback_is_full:
  assumes "game_objects g = pre @ r # post" and "r \<notin> set post"
    and "update_loop upd dt pre g = (None, g1)"
    and "type_of g r = Robot"
    and "objects_loop (advance upd dt r g1) r (game_objects g) scan0 = Inr s"
    and "collision s"
  shows "pose (objects (snd (update_object upd dt r g1)) r) = pose (objects g1 r)
       \<and> pose (objects (snd (update upd dt g)) r) = pose (objects g1 r)
       \<and> (\<forall>q. q \<noteq> r \<longrightarrow> objects (snd (update_object upd dt r g1)) q = objects g1 q)
       \<and> (\<forall>q. type_of g q = Wall \<or> type_of g q = Zone \<longrightarrow>
             pose (objects (snd (update_object upd dt r g1)) q) = pose (objects g1 q))"
proof -
  have fr: "type_of g1 = type_of g" "game_objects g1 = game_objects g"
    using update_loop_frame[of upd dt pre g] assms(3) by simp_all
  have step: "update_object upd dt r g1 =
     (None, (advance upd dt r g1)\<lparr>objects := (objects (advance upd dt r g1))
        (r := moveTo (objects (advance upd dt r g1) r) (pose (objects g1 r)))\<rparr>)"
    using update_object_rollback[of g1 r upd dt s] assms(4-6) fr by simp
  have p1: "pose (objects (snd (update_object upd dt r g1)) r) = pose (objects g1 r)"
    by (simp add: step moveTo_def)
  have "update upd dt g = update_loop upd dt (r # post) g1"
    using update_loop_append[OF assms(3)] assms(1) by (simp add: update_def)
  also have "\<dots> = update_loop upd dt post (snd (update_object upd dt r g1))"
    by (simp add: step)
  finally have "objects (snd (update upd dt g)) r = objects (snd (update_object upd dt r g1)) r"
    using update_loop_other[OF assms(2)] by simp
  then have p2: "pose (objects (snd (update upd dt g)) r) = pose (objects g1 r)"
    using p1 by simp
  have p3: "\<forall>q. q \<noteq> r \<longrightarrow> objects (snd (update_object upd dt r g1)) q = objects g1 q"
    using update_object_other by blast
  have p4: "\<forall>q. type_of g q = Wall \<or> type_of g q = Zone \<longrightarrow>
             pose (objects (snd (update_object upd dt r g1)) q) = pose (objects g1 q)"
  proof (intro allI impI)
    fix q assume "type_of g q = Wall \<or> type_of g q = Zone"
    then have "q \<noteq> r" using assms(4) by auto
    then show "pose (objects (snd (update_object upd dt r g1)) q) = pose (objects g1 q)"
      using p3 by simp
  qed
  show ?thesis using p1 p2 p3 p4 by blast
qed

theorem rollback_is_full_witness:
  "pose (objects (snd (update drift 1 (two_robots 15))) 0) = pose (objects (two_robots 15) 0)
   \<and> pose (objects (advance drift 1 0 (two_robots 15)) 0) \<noteq> pose (objects (two_robots 15) 0)
   \<and> objects (snd (update_object drift 1 0 (two_robots 15))) 1 = objects (two_robots 15) 1"
proof -
  have scan: "objects_loop (advance drift 1 0 (two_robots 15)) 0 (game_objects (two_robots 15)) scan0
      = Inr \<lparr>collision = True, evaluated = [RobotProbe 1]\<rparr>"
    by (simp add: two_robots_def object_at_def scan0_def advance_def drift_def
          find_distance_less_iff)
  have moved: "pose (objects (advance drift 1 0 (two_robots 15)) 0) \<noteq> pose (objects (two_robots 15) 0)"
    by (simp add: two_robots_def object_at_def advance_def drift_def)
  show ?thesis
    using rollback_is_full[of "two_robots 15" "[]" 0 "[1]" drift 1 "two_robots 15",
            OF _ _ _ _ scan] moved
    by (simp add: two_robots_def)
qed

section \<open>The circle-polygon predicate: vertices\<close>

text \<open>
  C3. A wall's local vertex is taken to the world frame by rotating it by the wall's
  orientation and then adding the wall's position. Starting from a clear flag, the vertex
  loop of a wall sets the flag if and only if the distance from one of these world-frame
  vertices to the robot's centre is strictly less than the robot's radius, and when none
  is, the ring it hands to the edge test is the list of these world-frame vertices. The
  scan against the wall alone reports a collision exactly for such a vertex or a positive
  edge test. In a scan over any objects, whose walls all have their polygon, such a
  vertex of one of the walls makes the scan report a collision; so does a robot's centre
  on a world-frame vertex, for any positive radius.
\<close>

theorem vertex_test_spec:
  assumes "type_of g a = Wall" and "shape_set (objects g a) = shape # others"
  shows
  "(\<not> collision s \<longrightarrow>
      collision (fst (vertex_loop a (pose (objects g a)) (position (pose (objects g r)))
                        (radius (objects g r)) (vertex shape) (s, [])))
      = (\<exists>v\<in>set (vertex shape).
           find_distance
             (vec_add (rotate_vec v (orient_z (orientation (pose (objects g a)))))
                      (position (pose (objects g a))))
             (position (pose (objects g r))) < radius (objects g r)))
   \<and> (\<not> collision s
       \<and> (\<forall>v\<in>set (vertex shape).
             \<not> find_distance
                 (vec_add (rotate_vec v (orient_z (orientation (pose (objects g a)))))
                          (position (pose (objects g a))))
                 (position (pose (objects g r))) < radius (objects g r))
      \<longrightarrow> snd (vertex_loop a (pose (objects g a)) (position (pose (objects g r)))
                   (radius (objects g r)) (vertex shape) (s, []))
          = map (\<lambda>v. vec_add (rotate_vec v (orient_z (orientation (pose (objects g a)))))
                              (position (pose (objects g a))))
                (vertex shape))
   \<and> (\<not> collision s \<longrightarrow>
        (\<exists>s'. objects_loop g r [a] s = Inr s'
           \<and> (collision s' \<longleftrightarrow>
                 (\<exists>v\<in>set (vertex shape).
                    find_distance
                      (vec_add (rotate_vec v (orient_z (orientation (pose (objects g a)))))
                               (position (pose (objects g a))))
                      (position (pose (objects g r))) < radius (objects g r))
                 \<or> (\<exists>i<length (vertex shape).
                      edge_test (position (pose (objects g r))) (radius (objects g r))
                        (new_line
                           (map (\<lambda>v. vec_add
                                   (rotate_vec v (orient_z (orientation (pose (objects g a)))))
                                   (position (pose (objects g a))))
                                (vertex shape)) i)))))
   \<and> (a \<in> set rs
       \<and> (\<forall>w\<in>set rs. type_of g w = Wall \<longrightarrow> shape_set (objects g w) \<noteq> [])
       \<and> (\<exists>v\<in>set (vertex shape).
             find_distance
               (vec_add (rotate_vec v (orient_z (orientation (pose (objects g a)))))
                        (position (pose (objects g a))))
               (position (pose (objects g r))) < radius (objects g r))
      \<longrightarrow> (\<exists>s'. objects_loop g r rs s = Inr s' \<and> collision s'))
   \<and> (a \<in> set rs
       \<and> (\<forall>w\<in>set rs. type_of g w = Wall \<longrightarrow> shape_set (objects g w) \<noteq> [])
       \<and> (\<exists>v\<in>set (vertex shape).
             vec_add (rotate_vec v (orient_z (orientation (pose (objects g a)))))
                     (position (pose (objects g a)))
             = position (pose (objects g r)))
       \<and> 0 < radius (objects g r)
      \<longrightarrow> (\<exists>s'. objects_loop g r rs s = Inr s' \<and> collision s'))"
proof -
  let ?wp = "pose (objects g a)"
  let ?c = "position (pose (objects g r))"
  let ?rad = "radius (objects g r)"
  let ?W = "\<lambda>v. vec_add (rotate_vec v (orient_z (orientation ?wp))) (position ?wp)"
  have W: "to_world ?wp = ?W" by (simp add: to_world_def fun_eq_iff)
  have p1: "\<not> collision s \<longrightarrow>
      collision (fst (vertex_loop a ?wp ?c ?rad (vertex shape) (s, [])))
      = (\<exists>v\<in>set (vertex shape). find_distance (?W v) ?c < ?rad)"
    using vertex_loop_collision[of s a ?wp ?c ?rad "vertex shape" "[]"] by (simp add: W)
  have p2: "\<not> collision s \<and> (\<forall>v\<in>set (vertex shape). \<not> find_distance (?W v) ?c < ?rad)
      \<longrightarrow> snd (vertex_loop a ?wp ?c ?rad (vertex shape) (s, [])) = map ?W (vertex shape)"
    using vertex_loop_coords[of s "vertex shape" ?wp ?c ?rad a "[]"] by (simp add: W)
  have p3: "\<not> collision s \<longrightarrow>
        (\<exists>s'. objects_loop g r [a] s = Inr s'
           \<and> (collision s' \<longleftrightarrow>
                 (\<exists>v\<in>set (vertex shape). find_distance (?W v) ?c < ?rad)
                 \<or> (\<exists>i<length (vertex shape).
                      edge_test ?c ?rad (new_line (map ?W (vertex shape)) i))))"
    using objects_loop_single_wall[OF assms, of r s]
          wall_scan_collision[of s a ?wp ?c ?rad "vertex shape"]
    by (simp add: W)
  have hit: "a \<in> set rs
       \<and> (\<forall>w\<in>set rs. type_of g w = Wall \<longrightarrow> shape_set (objects g w) \<noteq> [])
       \<and> (\<exists>v\<in>set (vertex shape). find_distance (?W v) ?c < ?rad)
      \<longrightarrow> (\<exists>s'. objects_loop g r rs s = Inr s' \<and> collision s')"
  proof
    assume h: "a \<in> set rs
       \<and> (\<forall>w\<in>set rs. type_of g w = Wall \<longrightarrow> shape_set (objects g w) \<noteq> [])
       \<and> (\<exists>v\<in>set (vertex shape). find_distance (?W v) ?c < ?rad)"
    then obtain s' where run: "objects_loop g r rs s = Inr s'"
      using objects_loop_total[of rs g r s] by blast
    obtain v where v: "v \<in> set (vertex shape)" "find_distance (to_world ?wp v) ?c < ?rad"
      using h by (auto simp: W)
    have "collision s'"
      using objects_loop_vertex_hit[OF run _ assms v] h by blast
    then show "\<exists>s'. objects_loop g r rs s = Inr s' \<and> collision s'" using run by blast
  qed
  have p5: "a \<in> set rs
       \<and> (\<forall>w\<in>set rs. type_of g w = Wall \<longrightarrow> shape_set (objects g w) \<noteq> [])
       \<and> (\<exists>v\<in>set (vertex shape). ?W v = ?c)
       \<and> 0 < ?rad
      \<longrightarrow> (\<exists>s'. objects_loop g r rs s = Inr s' \<and> collision s')"
  proof
    assume h: "a \<in> set rs
       \<and> (\<forall>w\<in>set rs. type_of g w = Wall \<longrightarrow> shape_set (objects g w) \<noteq> [])
       \<and> (\<exists>v\<in>set (vertex shape). ?W v = ?c)
       \<and> 0 < ?rad"
    then obtain v where v: "v \<in> set (vertex shape)" "?W v = ?c" by blast
    have "find_distance (?W v) ?c < ?rad"
      using h by (simp only: v(2) find_distance_self)
    then have "\<exists>v\<in>set (vertex shape). find_distance (?W v) ?c < ?rad"
      using v(1) by blast
    then show "\<exists>s'. objects_loop g r rs s = Inr s' \<and> collision s'"
      using hit h by blast
  qed
  show ?thesis using p1 p2 p3 hit p5 by blast
qed

theorem vertex_test_spec_witness:
  "(\<exists>s'. objects_loop (turned_arena (13/2) (5/2)) 0 [1] scan0 = Inr s' \<and> collision s')
   \<and> (\<exists>s'. objects_loop (wall_arena (-1) 0) 0 [1] scan0 = Inr s' \<and> \<not> collision s')
   \<and> (\<exists>s'. objects_loop (wall_arena 0 0) 0 [0, 1, 2] scan0 = Inr s' \<and> collision s')
   \<and> snd (vertex_loop 1 (pose (objects (turned_arena 0 0) 1)) (Vector2D 0 0) 1
            [Vector2D (-2) (-1), Vector2D 2 (-1), Vector2D 2 1, Vector2D (-2) 1] (scan0, []))
       = [Vector2D 6 (-2), Vector2D 6 2, Vector2D 4 2, Vector2D 4 (-2)]"
proof -
  let ?rect = "[Vector2D (-10) (-1), Vector2D 10 (-1), Vector2D 10 1, Vector2D (-10) 1]"
  let ?small = "[Vector2D (-2) (-1), Vector2D 2 (-1), Vector2D 2 1, Vector2D (-2) 1]"
  have a: "\<exists>s'. objects_loop (turned_arena (13/2) (5/2)) 0 [1] scan0 = Inr s' \<and> collision s'"
    using vertex_test_spec[of "turned_arena (13/2) (5/2)" 1 "Polygon ?small" "[]" scan0 0 "[1]"]
    by (simp add: turned_arena_def object_at_def scan0_def vec_add_def rotate_vec_def
          find_distance_less_iff power2_eq_square)
  have b: "\<exists>s'. objects_loop (wall_arena (-1) 0) 0 [1] scan0 = Inr s' \<and> \<not> collision s'"
    using vertex_test_spec[of "wall_arena (-1) 0" 1 "Polygon ?rect" "[]" scan0 0 "[1]"]
    by (simp add: wall_arena_def object_at_def scan0_def vec_add_def rotate_vec_def
          find_distance_less_iff power2_eq_square Ex_less_Suc new_line_def
          edge_test_def edge_test_with_def find_intersection_def find_perpendicular_def
          LineSegment2D_def line_det_def segment_find_distance_def isclose_def Let_def)
  have c: "\<exists>s'. objects_loop (wall_arena 0 0) 0 [0, 1, 2] scan0 = Inr s' \<and> collision s'"
    using vertex_test_spec[of "wall_arena 0 0" 1 "Polygon ?rect" "[]" scan0 0 "[0, 1, 2]"]
    by (simp add: wall_arena_def object_at_def vec_add_def rotate_vec_def)
  have d: "snd (vertex_loop 1 (pose (objects (turned_arena 0 0) 1)) (Vector2D 0 0) 1 ?small (scan0, []))
       = [Vector2D 6 (-2), Vector2D 6 2, Vector2D 4 2, Vector2D 4 (-2)]"
    using vertex_test_spec[of "turned_arena 0 0" 1 "Polygon ?small" "[]" scan0 0 "[1]"]
    by (simp add: turned_arena_def object_at_def scan0_def vec_add_def rotate_vec_def
          find_distance_less_iff power2_eq_square)
  show ?thesis using a b c d by blast
qed

section \<open>The circle-polygon predicate: edges\<close>

text \<open>
  C4. When no vertex test of a wall is positive, the wall reports a collision exactly when
  for one of its edges, the wrap-around edge from the last vertex to the first included,
  the perpendicular through the robot's centre meets the edge's line in a point that lies
  in the edge's bounding box up to the relative tolerance \<open>1e-4\<close>, and the distance
  from the centre to the edge's line is strictly less than the radius. An edge whose
  intersection point lies outside the box, beyond the tolerance, reports no collision.
\<close>

theorem edge_test_spec:
  assumes "\<not> collision s" and "\<forall>v\<in>set verts. \<not> find_distance (to_world wp v) c < r"
  shows "(collision (wall_scan a wp c r verts s) \<longleftrightarrow>
           (\<exists>i<length verts.
              let w = map (to_world wp) verts;
                  edge = LineSegment2D (Point2D (vec_x (w ! i)) (vec_y (w ! i)))
                           (Point2D (vec_x (w ! ((i + 1) mod length verts)))
                                    (vec_y (w ! ((i + 1) mod length verts))));
                  centre = Point2D (vec_x c) (vec_y c)
              in \<exists>p. find_intersection (find_perpendicular edge centre) edge = Some p
                     \<and> inside_box p edge \<and> segment_find_distance edge centre < r))
       \<and> (\<forall>p. find_intersection (find_perpendicular e (Point2D (vec_x c) (vec_y c))) e = Some p
                \<and> \<not> inside_box p e \<longrightarrow> \<not> edge_test c r e)"
proof -
  have "collision (wall_scan a wp c r verts s)
      = (\<exists>i<length verts. edge_test c r (new_line (map (to_world wp) verts) i))"
    using wall_scan_collision[OF assms(1), of a wp c r verts] assms(2) by simp
  then have a: "collision (wall_scan a wp c r verts s) \<longleftrightarrow>
           (\<exists>i<length verts.
              let w = map (to_world wp) verts;
                  edge = LineSegment2D (Point2D (vec_x (w ! i)) (vec_y (w ! i)))
                           (Point2D (vec_x (w ! ((i + 1) mod length verts)))
                                    (vec_y (w ! ((i + 1) mod length verts))));
                  centre = Point2D (vec_x c) (vec_y c)
              in \<exists>p. find_intersection (find_perpendicular edge centre) edge = Some p
                     \<and> inside_box p edge \<and> segment_find_distance edge centre < r)"
    by (simp add: edge_test_iff new_line_def Let_def)
  have b: "\<forall>p. find_intersection (find_perpendicular e (Point2D (vec_x c) (vec_y c))) e = Some p
                \<and> \<not> inside_box p e \<longrightarrow> \<not> edge_test c r e"
    by (simp add: edge_test_iff)
  show ?thesis using a b by blast
qed

theorem edge_test_spec_witness:
  "collision (wall_scan 1 (pose (objects (wall_arena 10 (-1/2)) 1)) (Vector2D 10 (-1/2)) 1
      [Vector2D (-10) (-1), Vector2D 10 (-1), Vector2D 10 1, Vector2D (-10) 1] scan0)
   \<and> \<not> edge_test (Vector2D (-3) (-1/2)) 1 (LineSegment2D (Point2D 0 0) (Point2D 20 0))"
proof -
  let ?wp = "pose (objects (wall_arena 10 (-1/2)) 1)"
  let ?vs = "[Vector2D (-10) (-1), Vector2D 10 (-1), Vector2D 10 1, Vector2D (-10) 1]"
  have novertex: "\<forall>v\<in>set ?vs. \<not> find_distance (to_world ?wp v) (Vector2D 10 (-1/2)) < 1"
    by (simp add: wall_arena_def object_at_def to_world_def vec_add_def rotate_vec_def
          find_distance_less_iff power2_eq_square)
  have clear: "\<not> collision scan0" by (simp add: scan0_def)
  have foot: "find_intersection
       (find_perpendicular (LineSegment2D (Point2D 0 0) (Point2D 20 0)) (Point2D 10 (-1/2)))
       (LineSegment2D (Point2D 0 0) (Point2D 20 0)) = Some (Point2D 10 0)"
    by (simp add: find_intersection_def find_perpendicular_def LineSegment2D_def line_det_def Let_def)
  have out: "find_intersection
       (find_perpendicular (LineSegment2D (Point2D 0 0) (Point2D 20 0)) (Point2D (-3) (-1/2)))
       (LineSegment2D (Point2D 0 0) (Point2D 20 0)) = Some (Point2D (-3) 0)"
    by (simp add: find_intersection_def find_perpendicular_def LineSegment2D_def line_det_def Let_def)
  have outside: "\<not> inside_box (Point2D (-3) 0) (LineSegment2D (Point2D 0 0) (Point2D 20 0))"
    by (simp add: inside_box_def within_tolerance_def LineSegment2D_def)
  have inside: "inside_box (Point2D 10 0) (LineSegment2D (Point2D 0 0) (Point2D 20 0))"
    by (simp add: inside_box_def within_tolerance_def LineSegment2D_def)
  have dist: "segment_find_distance (LineSegment2D (Point2D 0 0) (Point2D 20 0)) (Point2D 10 (-1/2)) < 1"
    by (simp add: segment_find_distance_def LineSegment2D_def)
  have ex: "\<exists>i<length ?vs.
              let w = map (to_world ?wp) ?vs;
                  edge = LineSegment2D (Point2D (vec_x (w ! i)) (vec_y (w ! i)))
                           (Point2D (vec_x (w ! ((i + 1) mod length ?vs)))
                                    (vec_y (w ! ((i + 1) mod length ?vs))));
                  centre = Point2D (vec_x (Vector2D 10 (-1/2))) (vec_y (Vector2D 10 (-1/2)))
              in \<exists>p. find_intersection (find_perpendicular edge centre) edge = Some p
                     \<and> inside_box p edge \<and> segment_find_distance edge centre < 1"
    using foot inside dist
    by (intro exI[of _ 0])
       (simp add: wall_arena_def object_at_def to_world_def vec_add_def rotate_vec_def Let_def)
  show ?thesis
    using edge_test_spec[OF clear novertex, of 1 "LineSegment2D (Point2D 0 0) (Point2D 20 0)"]
          edge_test_spec[of scan0 "[]" ?wp "Vector2D (-3) (-1/2)" 1 1
             "LineSegment2D (Point2D 0 0) (Point2D 20 0)"]
          ex out outside clear
    by simp
qed

section \<open>Objects that take no part in the scan\<close>

text \<open>
  C6. Zones never take part in collision detection: removing the zones from the scanned
  list changes nothing in the scan, a scan over zones only leaves the flag as it was, and
  a robot registered among zones only keeps the pose its motion update gave it, wherever
  the zones are and however large they are.
\<close>

theorem zones_never_collide:
  "objects_loop g r (filter (\<lambda>q. type_of g q \<noteq> Zone) rs) s = objects_loop g r rs s
   \<and> ((\<forall>q\<in>set rs. type_of g q = Zone) \<longrightarrow> objects_loop g r rs s = Inr s)
   \<and> (type_of g r = Robot \<and> (\<forall>q\<in>set (game_objects g). q = r \<or> type_of g q = Zone)
        \<longrightarrow> update_object upd dt r g = (None, advance upd dt r g))"
proof -
  have a: "objects_loop g r (filter (\<lambda>q. type_of g q \<noteq> Zone) rs) s = objects_loop g r rs s"
    by (rule objects_loop_filter_zone)
  have b: "(\<forall>q\<in>set rs. type_of g q = Zone) \<longrightarrow> objects_loop g r rs s = Inr s"
    using objects_loop_only_zones[of rs r g s] by blast
  have c: "type_of g r = Robot \<and> (\<forall>q\<in>set (game_objects g). q = r \<or> type_of g q = Zone)
        \<longrightarrow> update_object upd dt r g = (None, advance upd dt r g)"
  proof
    assume h: "type_of g r = Robot \<and> (\<forall>q\<in>set (game_objects g). q = r \<or> type_of g q = Zone)"
    let ?g1 = "advance upd dt r g"
    have "\<forall>q\<in>set (game_objects ?g1). q = r \<and> type_of ?g1 r = Robot \<or> type_of ?g1 q = Zone"
      using h by (auto simp: advance_simps)
    then have "objects_loop ?g1 r (game_objects ?g1) scan0 = Inr scan0"
      by (rule objects_loop_only_zones)
    then show "update_object upd dt r g = (None, advance upd dt r g)"
      using h by (simp add: update_object_def Let_def advance_simps scan0_def)
  qed
  show ?thesis using a b c by blast
qed

theorem zones_never_collide_witness:
  "objects_loop zone_arena 0 [1, 0] scan0 = Inr scan0
   \<and> objects_loop zone_arena 0 [1, 1] scan0 = Inr scan0
   \<and> update_object drift 1 0 zone_arena = (None, advance drift 1 0 zone_arena)
   \<and> position (pose (objects (snd (update_object drift 1 0 zone_arena)) 0)) = Vector2D 4 4"
  using zones_never_collide[of zone_arena 0 "[1, 0]" scan0 drift 1]
        zones_never_collide[of zone_arena 0 "[1, 1]" scan0 drift 1]
  by (simp add: zone_arena_def object_at_def advance_def drift_def)

text \<open>
  C10. A robot is never checked against itself: the distance test is never evaluated for
  the moving robot's own reference, removing the robot from the scanned list changes
  nothing in its scan, and a robot registered alone or among zones only never collides
  and is never rolled back, whatever its radius and pose.
\<close>

theorem no_self_collision:
  "(RobotProbe r \<notin> set (evaluated s) \<and> objects_loop g r rs s = Inr s'
      \<longrightarrow> RobotProbe r \<notin> set (evaluated s'))
   \<and> (type_of g r = Robot
        \<longrightarrow> objects_loop g r (filter (\<lambda>q. q \<noteq> r) rs) s = objects_loop g r rs s)
   \<and> (type_of g r = Robot \<and> (\<forall>q\<in>set rs. q = r \<or> type_of g q = Zone)
        \<longrightarrow> objects_loop g r rs s = Inr s)
   \<and> (type_of g r = Robot \<and> (\<forall>q\<in>set (game_objects g). q = r \<or> type_of g q = Zone)
        \<longrightarrow> snd (update_object upd dt r g) = advance upd dt r g)"
proof -
  have a: "RobotProbe r \<notin> set (evaluated s) \<and> objects_loop g r rs s = Inr s'
      \<longrightarrow> RobotProbe r \<notin> set (evaluated s')"
    using objects_loop_no_self_probe by blast
  have b: "type_of g r = Robot
        \<longrightarrow> objects_loop g r (filter (\<lambda>q. q \<noteq> r) rs) s = objects_loop g r rs s"
    using objects_loop_filter_self by blast
  have c: "type_of g r = Robot \<and> (\<forall>q\<in>set rs. q = r \<or> type_of g q = Zone)
        \<longrightarrow> objects_loop g r rs s = Inr s"
    using objects_loop_only_zones[of rs r g s] by blast
  have d: "type_of g r = Robot \<and> (\<forall>q\<in>set (game_objects g). q = r \<or> type_of g q = Zone)
        \<longrightarrow> snd (update_object upd dt r g) = advance upd dt r g"
  proof
    assume h: "type_of g r = Robot \<and> (\<forall>q\<in>set (game_objects g). q = r \<or> type_of g q = Zone)"
    let ?g1 = "advance upd dt r g"
    have "\<forall>q\<in>set (game_objects ?g1). q = r \<and> type_of ?g1 r = Robot \<or> type_of ?g1 q = Zone"
      using h by (auto simp: advance_simps)
    then have "objects_loop ?g1 r (game_objects ?g1) scan0 = Inr scan0"
      by (rule objects_loop_only_zones)
    then show "snd (update_object upd dt r g) = advance upd dt r g"
      using h by (simp add: update_object_def Let_def advance_simps scan0_def)
  qed
  show ?thesis using a b c d by blast
qed

theorem no_self_collision_witness:
  "objects_loop (two_robots 0) 0 [0, 0] scan0 = Inr scan0
   \<and> objects_loop (two_robots 0) 0 [0, 1] scan0 = objects_loop (two_robots 0) 0 [1] scan0
   \<and> snd (update_object drift 1 0 zone_arena) = advance drift 1 0 zone_arena
   \<and> RobotProbe 0 \<notin> set (evaluated \<lparr>collision = True, evaluated = [RobotProbe 1]\<rparr>)"
proof -
  have run: "objects_loop (two_robots 0) 0 [0, 1] scan0
      = Inr \<lparr>collision = True, evaluated = [RobotProbe 1]\<rparr>"
    by (simp add: two_robots_def object_at_def scan0_def find_distance_less_iff)
  show ?thesis
    using no_self_collision[of 0 scan0 "two_robots 0" "[0, 1]"
            "\<lparr>collision = True, evaluated = [RobotProbe 1]\<rparr>" drift 1]
        no_self_collision[of 0 scan0 "two_robots 0" "[0, 0]" scan0 drift 1]
        no_self_collision[of 0 scan0 zone_arena "[]" scan0 drift 1]
        run
    by (simp add: two_robots_def zone_arena_def scan0_def)
qed

section \<open>Evaluation order and halting\<close>

text \<open>
  C5. The first positive predicate is to halt all further collision evaluation for the
  moving robot in the tick. After a positive distance test against another robot the code
  does so: it leaves the loop over the objects. After a positive test of a wall's vertex
  or edge it does not: only the loops of the wall branch stop, the loop over the objects
  goes on, and the distance test against every later robot is still evaluated. Robot 0
  lies on a corner of wall 1 and robot 2 is registered after the wall: the test against
  robot 2 is evaluated after the positive vertex test. In the other arena the test
  against robot 1 is positive, and nothing is evaluated for the two entries after it.
\<close>

theorem scan_continues_after_wall_hit:
  "objects_loop (wall_arena 0 0) 0 (game_objects (wall_arena 0 0)) scan0
     = Inr \<lparr>collision = True, evaluated = [VertexProbe 1 0, RobotProbe 2]\<rparr>
   \<and> objects_loop (two_robots 15) 0 [1, 0, 1] scan0
     = Inr \<lparr>collision = True, evaluated = [RobotProbe 1]\<rparr>"
  by (simp add: wall_arena_def two_robots_def object_at_def scan0_def find_distance_less_iff
        wall_scan_def to_world_def vec_add_def rotate_vec_def)

text \<open>
  The continuing loop shows in the outcome as well: it reads \<open>shape_set[0]\<close> of every
  later wall. Robot 0 moves onto a corner of wall 1; the scan of the objects up to the
  wall reports the collision, but with a later wall that has no shape the tick ends in
  \<open>IndexError\<close> and the robot keeps the pose of its motion update.
\<close>

lemma later_wall_error_loses_rollback:
  "objects_loop (advance drift 1 0 (open_wall_arena (-1) 0)) 0 [0, 1] scan0
     = Inr \<lparr>collision = True, evaluated = [VertexProbe 1 0]\<rparr>
   \<and> objects_loop (advance drift 1 0 (open_wall_arena (-1) 0)) 0 [0, 1, 2] scan0 = Inl IndexError
   \<and> update_object drift 1 0 (open_wall_arena (-1) 0)
     = (Some IndexError, advance drift 1 0 (open_wall_arena (-1) 0))
   \<and> position (pose (objects (snd (update_object drift 1 0 (open_wall_arena (-1) 0))) 0))
     = Vector2D 0 0"
proof -
  have a: "objects_loop (advance drift 1 0 (open_wall_arena (-1) 0)) 0 [0, 1] scan0
     = Inr \<lparr>collision = True, evaluated = [VertexProbe 1 0]\<rparr>"
    by (simp add: open_wall_arena_def object_at_def scan0_def advance_def drift_def
          find_distance_less_iff wall_scan_def to_world_def vec_add_def rotate_vec_def)
  have b: "objects_loop (advance drift 1 0 (open_wall_arena (-1) 0)) 0 [0, 1, 2] scan0 = Inl IndexError"
    by (simp add: open_wall_arena_def object_at_def scan0_def advance_def drift_def
          find_distance_less_iff wall_scan_def to_world_def vec_add_def rotate_vec_def)
  have g: "game_objects (advance drift 1 0 (open_wall_arena (-1) 0)) = [0, 1, 2]"
    "type_of (advance drift 1 0 (open_wall_arena (-1) 0)) 0 = Robot"
    by (simp_all add: advance_simps open_wall_arena_def)
  have c: "update_object drift 1 0 (open_wall_arena (-1) 0)
     = (Some IndexError, advance drift 1 0 (open_wall_arena (-1) 0))"
    unfolding update_object_def Let_def g b by simp
  have d: "position (pose (objects (advance drift 1 0 (open_wall_arena (-1) 0)) 0)) = Vector2D 0 0"
    by (simp add: open_wall_arena_def object_at_def advance_def drift_def)
  show ?thesis using a b c d by simp
qed

section \<open>A tick of zero length\<close>

text \<open>
  C7, as the code has it. When every object's motion update is a no-op at time delta zero,
  a tick with time delta zero leaves the whole state, and so every pose, as it was. A
  collision may still be detected, for objects that overlap already; its rollback restores
  the pose the object has.
\<close>

theorem zero_tick_keeps_state:
  assumes "\<forall>k ob. upd k 0 ob = ob"
  shows "snd (update upd 0 g) = g
       \<and> (\<forall>r. pose (objects (snd (update upd 0 g)) r) = pose (objects g r))"
  using update_loop_idle[of upd "game_objects g" g] assms by (simp add: update_def)

theorem zero_tick_keeps_state_witness:
  "snd (update drift 0 (two_robots 15)) = two_robots 15"
  using zero_tick_keeps_state[of drift "two_robots 15"] by (simp add: drift_def)

text \<open>
  The claim C7 as the spec states it, that a tick of zero length never reports a
  collision, fails for two robots that overlap already: the motion update of robot 0 is a
  no-op, and its scan sets the flag, so that the rollback is carried out.
\<close>

theorem zero_tick_reports_collision:
  "drift Robot 0 (objects (two_robots 15) 0) = objects (two_robots 15) 0
   \<and> objects_loop (advance drift 0 0 (two_robots 15)) 0 (game_objects (two_robots 15)) scan0
       = Inr \<lparr>collision = True, evaluated = [RobotProbe 1]\<rparr>"
  by (simp add: two_robots_def object_at_def scan0_def advance_def drift_def
          find_distance_less_iff)

section \<open>An empty intersection\<close>



end
